theory Spec2Isabelle
  imports Main "HOL-Library.Sublist"
begin

section \<open>Session registry (session.manager.ts)\<close>

text \<open>
  A conversation entry is the object \<open>{ role, content }\<close> pushed by \<open>addMessage\<close>;
  the \<open>Session\<close> interface types \<open>role\<close> as a plain string.
\<close>

record Entry =
  role :: string
  content :: string

text \<open>
  The \<open>Session\<close> interface.  \<open>startTime\<close> is the \<open>Date\<close> taken at creation, as a
  number of milliseconds.  The field \<open>from\<close> is named \<open>from_number\<close> here.
\<close>

record Session =
  callSid :: string
  from_number :: string
  to_number :: string
  startTime :: nat
  conversationHistory :: "Entry list"

text \<open>The private \<open>sessions: Map<string, Session>\<close> of \<open>SessionManager\<close>.\<close>

type_synonym sessions = "string \<rightharpoonup> Session"

text \<open>
  \<open>Array.prototype.slice(start)\<close> with one argument: a negative \<open>start\<close> counts from
  the end and is clamped at the first element, a \<open>start\<close> beyond the end gives the
  empty array.
\<close>

definition slice :: "int \<Rightarrow> 'a list \<Rightarrow> 'a list" where
  "slice start xs =
     (let n = int (length xs);
          k = (if start < 0 then max (n + start) 0 else min start n)
      in drop (nat k) xs)"

text \<open>
  \<open>createSession\<close> builds a session with an empty history and stores it with
  \<open>Map.set\<close>, whatever the map held under \<open>callSid\<close> before; it returns the new
  session.  \<open>now\<close> is the value of \<open>new Date()\<close>.
\<close>

definition createSession ::
  "sessions \<Rightarrow> nat \<Rightarrow> string \<Rightarrow> string \<Rightarrow> string \<Rightarrow> Session \<times> sessions" where
  "createSession m now cid frm to =
     (let session = \<lparr>callSid = cid, from_number = frm, to_number = to,
                      startTime = now, conversationHistory = []\<rparr>
      in (session, m(cid \<mapsto> session)))"

definition getSession :: "sessions \<Rightarrow> string \<Rightarrow> Session option" where
  "getSession m cid = m cid"

text \<open>
  \<open>addMessage\<close>: nothing happens when the session is absent; otherwise the entry is
  pushed and, when the history then has more than 20 entries, it is replaced by
  \<open>slice(-20)\<close> of itself.
\<close>

definition addMessage :: "sessions \<Rightarrow> string \<Rightarrow> string \<Rightarrow> string \<Rightarrow> sessions" where
  "addMessage m cid r c =
     (case m cid of
        None \<Rightarrow> m
      | Some session \<Rightarrow>
          (let pushed = conversationHistory session @ [\<lparr>role = r, content = c\<rparr>];
               kept = (if length pushed > 20 then slice (- 20) pushed else pushed)
           in m(cid \<mapsto> session\<lparr>conversationHistory := kept\<rparr>)))"

definition endSession :: "sessions \<Rightarrow> string \<Rightarrow> sessions" where
  "endSession m cid = (case m cid of None \<Rightarrow> m | Some session \<Rightarrow> m(cid := None))"

text \<open>
  A sequence of \<open>addMessage\<close> calls, each with its own call identifier, role and
  content, run in order.
\<close>

fun addMessages :: "sessions \<Rightarrow> (string \<times> string \<times> string) list \<Rightarrow> sessions" where
  "addMessages m [] = m"
| "addMessages m ((cid, r, c) # calls) = addMessages (addMessage m cid r c) calls"

text \<open>The entries that a sequence of calls appends to the session \<open>cid\<close>, in order.\<close>

fun entriesFor :: "string \<Rightarrow> (string \<times> string \<times> string) list \<Rightarrow> Entry list" where
  "entriesFor cid [] = []"
| "entriesFor cid ((cid', r, c) # calls) =
     (if cid' = cid then \<lparr>role = r, content = c\<rparr> # entriesFor cid calls
      else entriesFor cid calls)"

text \<open>The last \<open>n\<close> elements of a list, in order (all of it when it is shorter).\<close>

definition lastN :: "nat \<Rightarrow> 'a list \<Rightarrow> 'a list" where
  "lastN n xs = drop (length xs - n) xs"

section \<open>Completion service (llama.service.ts)\<close>

text \<open>
  A \<open>ConversationEntry\<close> as \<open>handlePrompt\<close> builds it: role, content and a
  timestamp.  The elements of the request are plain \<open>{ role, content }\<close> objects,
  that is, of type \<open>Entry\<close>.
\<close>

record ConversationEntry = Entry +
  timestamp :: nat

text \<open>
  The parts of the imported \<open>config\<close> object that the modelled code reads
  (\<open>config.features.enableDtmf\<close>, \<open>config.features.enableInterruptions\<close>,
  \<open>config.llama.systemPrompt\<close>).  The configuration module is not among the source
  files, so its values are parameters.
\<close>

record Config =
  enableDtmf :: bool
  enableInterruptions :: bool
  systemPrompt :: string

text \<open>
  \<open>buildMessages\<close>: the system prompt, then the entries of \<open>slice(-10)\<close> of the
  history whose role is not \<open>system\<close>, then the current user prompt.
\<close>

definition buildMessages :: "Config \<Rightarrow> string \<Rightarrow> ConversationEntry list \<Rightarrow> Entry list" where
  "buildMessages cfg userPrompt history =
     [\<lparr>role = ''system'', content = systemPrompt cfg\<rparr>]
     @ map (\<lambda>entry. \<lparr>role = role entry, content = content entry\<rparr>)
         (filter (\<lambda>entry. role entry \<noteq> ''system'') (slice (- 10) history))
     @ [\<lparr>role = ''user'', content = userPrompt\<rparr>]"

text \<open>
  What \<open>client.chat.completions.create\<close> can do with a request: answer with a
  string content, with a content object that has a \<open>text\<close> field, with no usable
  content, or throw an error with a \<open>name\<close>.  The client is an external
  collaborator, so it is a parameter of the model.
\<close>

datatype ApiResult =
    ContentString string
  | ContentObject string
  | NoContent
  | Thrown string

type_synonym Api = "Entry list \<Rightarrow> ApiResult"

definition generateResponse :: "Config \<Rightarrow> Api \<Rightarrow> string \<Rightarrow> ConversationEntry list \<Rightarrow> string" where
  "generateResponse cfg api userPrompt history =
     (case api (buildMessages cfg userPrompt history) of
        ContentString c \<Rightarrow> c
      | ContentObject t \<Rightarrow> t
      | NoContent \<Rightarrow> ''I apologize, but I was unable to generate a response.''
      | Thrown name \<Rightarrow>
          (if name = ''RateLimitError'' then
             ''I apologize, but the service is currently experiencing high demand. Please try again in a moment.''
           else if name = ''AuthenticationError'' then
             ''I apologize, but there is a configuration issue. Please contact support.''
           else if name = ''APIConnectionTimeoutError'' then
             ''I apologize, but the request timed out. Please try again.''
           else if name = ''InternalServerError'' then
             ''I apologize, but the service is temporarily unavailable. Please try again later.''
           else ''I apologize, but I encountered an error. Please try again.''))"

text \<open>
  The streaming side keeps \<open>activeStreams: Map<string, AbortController>\<close>.  The
  \<open>AbortController\<close> objects live in a store: the controller at address \<open>c\<close> is
  \<open>controllers ! c\<close>, its value the flag \<open>signal.aborted\<close>.
\<close>

record LlamaService =
  controllers :: "bool list"
  activeStreams :: "string \<rightharpoonup> nat"



text \<open>The \<open>finally\<close> block of \<open>generateStreamingResponse\<close>.\<close>

definition streamFinally :: "LlamaService \<Rightarrow> string \<Rightarrow> LlamaService" where
  "streamFinally svc sessionId = svc\<lparr>activeStreams := (activeStreams svc)(sessionId := None)\<rparr>"

definition cancelStream :: "LlamaService \<Rightarrow> string \<Rightarrow> LlamaService" where
  "cancelStream svc sessionId =
     (case activeStreams svc sessionId of
        None \<Rightarrow> svc
      | Some controller \<Rightarrow>
          svc\<lparr>controllers := (controllers svc)[controller := True],
              activeStreams := (activeStreams svc)(sessionId := None)\<rparr>)"

section \<open>Message handler (message.handler.ts)\<close>

datatype IncomingMessage =
    SetupMessage string string string
  | PromptMessage string
  | InterruptMessage string
  | DtmfMessage string
  | EndMessage string
  | ErrorMessage string string
  | UnknownMessage string

text \<open>
  The responses the handler builds: a text message with its fields \<open>token\<close>,
  \<open>interruptible\<close> and \<open>last\<close>, in this order, or an end-of-session message.
\<close>

datatype ResponseMessage =
    TextMessage string bool bool
  | EndSessionMessage

text \<open>
  The handler owns the session manager and the completion service.  Of the
  \<open>SessionWebSocket\<close> only the field \<open>callSid\<close> is used, which may be undefined.
\<close>

record MessageHandler =
  sessionManager :: sessions
  llamaService :: LlamaService

type_synonym SessionWebSocket = "string option"

text \<open>
  The tests \<open>if (!ws.callSid)\<close> and \<open>if (ws.callSid)\<close> follow JavaScript truthiness:
  the identifier counts as present when it is defined and not the empty string.
\<close>

definition handleSetup ::
  "nat \<Rightarrow> string \<Rightarrow> string \<Rightarrow> string \<Rightarrow> SessionWebSocket \<times> MessageHandler \<Rightarrow>
   ResponseMessage option \<times> SessionWebSocket \<times> MessageHandler" where
  "handleSetup now cid frm to st =
     (case st of (ws, h) \<Rightarrow>
        (None, Some cid, h\<lparr>sessionManager := snd (createSession (sessionManager h) now cid frm to)\<rparr>))"

text \<open>
  \<open>handlePrompt\<close>.  The variable \<open>session\<close> is the object held in the map, so the
  history it shows after \<open>addMessage\<close> is the one stored in the map then.
  \<open>generateResponse\<close> catches every error itself and returns a string, so the
  \<open>catch\<close> branch of \<open>handlePrompt\<close> has no case here.
\<close>

definition handlePrompt ::
  "Config \<Rightarrow> Api \<Rightarrow> nat \<Rightarrow> string \<Rightarrow> SessionWebSocket \<times> MessageHandler \<Rightarrow>
   ResponseMessage option \<times> SessionWebSocket \<times> MessageHandler" where
  "handlePrompt cfg api now voicePrompt st =
     (case st of (ws, h) \<Rightarrow>
        (case ws of
           None \<Rightarrow> (None, ws, h)
         | Some cid \<Rightarrow>
             if cid = [] then (None, ws, h)
             else
               (case getSession (sessionManager h) cid of
                  None \<Rightarrow> (None, ws, h)
                | Some session \<Rightarrow>
                    (let m1 = addMessage (sessionManager h) cid ''user'' voicePrompt;
                         stored = (case getSession m1 cid of
                                     None \<Rightarrow> []
                                   | Some session1 \<Rightarrow> conversationHistory session1);
                         history = map (\<lambda>msg. \<lparr>role = role msg, content = content msg,
                                                timestamp = now\<rparr>) stored;
                         response = generateResponse cfg api voicePrompt history;
                         m2 = addMessage m1 cid ''assistant'' response
                     in (Some (TextMessage response (enableInterruptions cfg) True),
                         ws, h\<lparr>sessionManager := m2\<rparr>)))))"

definition handleInterrupt ::
  "SessionWebSocket \<times> MessageHandler \<Rightarrow>
   ResponseMessage option \<times> SessionWebSocket \<times> MessageHandler" where
  "handleInterrupt st =
     (case st of (ws, h) \<Rightarrow>
        (case ws of
           None \<Rightarrow> (None, ws, h)
         | Some cid \<Rightarrow>
             if cid = [] then (None, ws, h)
             else (None, ws, h\<lparr>llamaService := cancelStream (llamaService h) cid\<rparr>)))"

text \<open>\<open>handleDtmf\<close> takes the configuration and the digit and touches nothing else.\<close>

definition handleDtmf :: "Config \<Rightarrow> string \<Rightarrow> ResponseMessage option" where
  "handleDtmf cfg digit =
     (if \<not> enableDtmf cfg then None
      else if digit = ''#'' then Some EndSessionMessage
      else
        (let response =
               (if digit = ''*'' then ''You pressed star. How can I help you?''
                else if digit = ''0'' then
                  ''You pressed zero. Transferring to an operator is not available at this time.''
                else ''You pressed '' @ digit @ ''. Please speak your request.'')
         in Some (TextMessage response True True)))"

definition handleEnd ::
  "SessionWebSocket \<times> MessageHandler \<Rightarrow>
   ResponseMessage option \<times> SessionWebSocket \<times> MessageHandler" where
  "handleEnd st =
     (case st of (ws, h) \<Rightarrow>
        (case ws of
           None \<Rightarrow> (None, ws, h)
         | Some cid \<Rightarrow>
             if cid = [] then (None, ws, h)
             else (None, None, h\<lparr>sessionManager := endSession (sessionManager h) cid\<rparr>)))"

text \<open>
  \<open>handleMessage\<close>: the dispatch on the message type.  It returns the response (if
  any) with the connection and the handler as the event leaves them.
\<close>

fun handleMessage ::
  "Config \<Rightarrow> Api \<Rightarrow> nat \<Rightarrow> IncomingMessage \<Rightarrow> SessionWebSocket \<times> MessageHandler \<Rightarrow>
   ResponseMessage option \<times> SessionWebSocket \<times> MessageHandler" where
  "handleMessage cfg api now (SetupMessage cid frm to) st = handleSetup now cid frm to st"
| "handleMessage cfg api now (PromptMessage voicePrompt) st = handlePrompt cfg api now voicePrompt st"
| "handleMessage cfg api now (InterruptMessage utterance) st = handleInterrupt st"
| "handleMessage cfg api now (DtmfMessage digit) st = (handleDtmf cfg digit, st)"
| "handleMessage cfg api now (EndMessage reason) st = handleEnd st"
| "handleMessage cfg api now (ErrorMessage description code) st = (None, st)"
| "handleMessage cfg api now (UnknownMessage type) st = (None, st)"





section \<open>Voice text normalizer (streaming.handler.ts)\<close>

text \<open>
  Strings are lists of characters; a character stands for one code unit in the range
  U+0000 to U+00FF.  In that range the class \<open>\s\<close> of a JavaScript regular
  expression, and the characters that \<open>trim\<close> strips, are tab, line feed, vertical
  tab, form feed, carriage return, space and the no-break space U+00A0.
\<close>

definition isSpace :: "char \<Rightarrow> bool" where
  "isSpace c = (c \<in> set [CHR 0x09, CHR 0x0A, CHR 0x0B, CHR 0x0C, CHR 0x0D, CHR 0x20, CHR 0xA0])"

text \<open>\<open>replace(/\*\*/g, '')\<close>: every pair of asterisks, found from left to right.\<close>

fun removeBold :: "string \<Rightarrow> string" where
  "removeBold (a # b # cs) =
     (if a = CHR ''*'' \<and> b = CHR ''*'' then removeBold cs else a # removeBold (b # cs))"
| "removeBold cs = cs"

text \<open>\<open>replace(/\*/g, '')\<close>.\<close>

definition removeItalic :: "string \<Rightarrow> string" where
  "removeItalic text = filter (\<lambda>c. c \<noteq> CHR ''*'') text"

text \<open>
  \<open>replace(/```[\s\S]*?```/g, '')\<close>.  The lazy body ends at the first fence that
  follows the opening one: \<open>afterFence\<close> gives the text after that closing fence, if
  there is one.  A match is removed whole and the search goes on behind it; where no
  match starts, the character is kept.
\<close>

fun afterFence :: "string \<Rightarrow> string option" where
  "afterFence [] = None"
| "afterFence (c # cs) =
     (if take 3 (c # cs) = ''```'' then Some (drop 3 (c # cs)) else afterFence cs)"

lemma afterFence_length: "afterFence cs = Some rest \<Longrightarrow> length rest < length cs"
  by (induction cs) (auto split: if_splits)

function removeCodeBlocks :: "string \<Rightarrow> string" where
  "removeCodeBlocks [] = []"
| "removeCodeBlocks (c # cs) =
     (if take 3 (c # cs) = ''```'' then
        (case afterFence (drop 3 (c # cs)) of
           Some rest \<Rightarrow> removeCodeBlocks rest
         | None \<Rightarrow> c # removeCodeBlocks cs)
      else c # removeCodeBlocks cs)"
  by pat_completeness auto
termination
proof (relation "measure length")
  fix c cs rest
  assume "afterFence (drop 3 (c # cs)) = Some rest"
  then have "length rest < length (drop 3 (c # cs))" by (rule afterFence_length)
  then show "(rest, c # cs) \<in> measure length" by simp
qed simp_all

text \<open>
  \<open>replace(/`([^`]+)`/g, '$1')\<close>: a backtick, the longest run of characters other
  than a backtick, which must not be empty, and a backtick; the run is kept.
\<close>

function removeInlineCode :: "string \<Rightarrow> string" where
  "removeInlineCode [] = []"
| "removeInlineCode (c # cs) =
     (if c = CHR ''`'' then
        (case dropWhile (\<lambda>x. x \<noteq> CHR ''`'') cs of
           [] \<Rightarrow> c # removeInlineCode cs
         | tick # rest \<Rightarrow>
             if takeWhile (\<lambda>x. x \<noteq> CHR ''`'') cs \<noteq> []
             then takeWhile (\<lambda>x. x \<noteq> CHR ''`'') cs @ removeInlineCode rest
             else c # removeInlineCode cs)
      else c # removeInlineCode cs)"
  by pat_completeness auto
termination
proof (relation "measure length")
  fix c :: char and cs tick rest
  assume "dropWhile (\<lambda>x. x \<noteq> CHR ''`'') cs = tick # rest"
  then have "length (tick # rest) \<le> length cs"
    using length_dropWhile_le [of "\<lambda>x. x \<noteq> CHR ''`''" cs] by simp
  then show "(rest, c # cs) \<in> measure length" by simp
qed simp_all

text \<open>
  \<open>replace(/#{1,6}\s/g, '')\<close>: one to six hash signs and one whitespace character.
  The hash signs are taken greedily, so a match starts at a hash sign only when the run
  of hash signs from there has at most six of them and a whitespace character follows
  the run.
\<close>

function removeHeaders :: "string \<Rightarrow> string" where
  "removeHeaders [] = []"
| "removeHeaders (c # cs) =
     (if c = CHR ''#'' then
        (case dropWhile (\<lambda>x. x = CHR ''#'') cs of
           [] \<Rightarrow> c # removeHeaders cs
         | s # rest \<Rightarrow>
             if isSpace s \<and> Suc (length (takeWhile (\<lambda>x. x = CHR ''#'') cs)) \<le> 6
             then removeHeaders rest
             else c # removeHeaders cs)
      else c # removeHeaders cs)"
  by pat_completeness auto
termination
proof (relation "measure length")
  fix c :: char and cs s rest
  assume "dropWhile (\<lambda>x. x = CHR ''#'') cs = s # rest"
  then have "length (s # rest) \<le> length cs"
    using length_dropWhile_le [of "\<lambda>x. x = CHR ''#''" cs] by simp
  then show "(rest, c # cs) \<in> measure length" by simp
qed simp_all

text \<open>
  \<open>replace(/\[([^\]]+)\]\([^)]+\)/g, '$1')\<close>.  \<open>linkAt\<close> matches the expression at an
  opening bracket, given the text behind the bracket: the longest run without a closing
  bracket (not empty), a closing bracket, an opening parenthesis, the longest run without
  a closing parenthesis (not empty) and a closing parenthesis.  It gives the link text
  and what follows the match.
\<close>

definition linkAt :: "string \<Rightarrow> (string \<times> string) option" where
  "linkAt cs =
     (let label = takeWhile (\<lambda>x. x \<noteq> CHR '']'') cs in
      case dropWhile (\<lambda>x. x \<noteq> CHR '']'') cs of
        close # paren # target \<Rightarrow>
          (if label \<noteq> [] \<and> paren = CHR ''('' then
             (case dropWhile (\<lambda>x. x \<noteq> CHR '')'') target of
                [] \<Rightarrow> None
              | close' # rest \<Rightarrow>
                  if takeWhile (\<lambda>x. x \<noteq> CHR '')'') target \<noteq> [] then Some (label, rest)
                  else None)
           else None)
      | _ \<Rightarrow> None)"

lemma linkAt_length: "linkAt cs = Some (label, rest) \<Longrightarrow> length rest < length cs"
proof -
  assume a: "linkAt cs = Some (label, rest)"
  then obtain close paren target close' where
    d1: "dropWhile (\<lambda>x. x \<noteq> CHR '']'') cs = close # paren # target" and
    d2: "dropWhile (\<lambda>x. x \<noteq> CHR '')'') target = close' # rest"
    by (auto simp: linkAt_def Let_def split: list.splits if_splits)
  have "length (close # paren # target) \<le> length cs"
    using length_dropWhile_le [of "\<lambda>x. x \<noteq> CHR '']''" cs] by (simp add: d1)
  moreover have "length (close' # rest) \<le> length target"
    using length_dropWhile_le [of "\<lambda>x. x \<noteq> CHR '')''" target] by (simp add: d2)
  ultimately show ?thesis by simp
qed

function removeLinks :: "string \<Rightarrow> string" where
  "removeLinks [] = []"
| "removeLinks (c # cs) =
     (if c = CHR ''['' then
        (case linkAt cs of
           Some (label, rest) \<Rightarrow> label @ removeLinks rest
         | None \<Rightarrow> c # removeLinks cs)
      else c # removeLinks cs)"
  by pat_completeness auto
termination
  by (relation "measure length") (auto dest: linkAt_length)

text \<open>\<open>replace(/[<>]/g, '')\<close>.\<close>

definition removeAngles :: "string \<Rightarrow> string" where
  "removeAngles text = filter (\<lambda>c. c \<noteq> CHR ''<'' \<and> c \<noteq> CHR ''>'') text"

text \<open>
  \<open>replace(/&/g, ' and ')\<close>, \<open>replace(/@/g, ' at ')\<close> and
  \<open>replace(/#/g, ' number ')\<close>: every occurrence of the character gives way to the
  word.
\<close>

definition replaceChar :: "char \<Rightarrow> string \<Rightarrow> string \<Rightarrow> string" where
  "replaceChar symbol word text = concat (map (\<lambda>c. if c = symbol then word else [c]) text)"

text \<open>\<open>replace(/\s+/g, ' ')\<close>: every maximal run of whitespace becomes one space.\<close>

function collapseWhitespace :: "string \<Rightarrow> string" where
  "collapseWhitespace [] = []"
| "collapseWhitespace (c # cs) =
     (if isSpace c then CHR '' '' # collapseWhitespace (dropWhile isSpace cs)
      else c # collapseWhitespace cs)"
  by pat_completeness auto
termination
proof (relation "measure length")
  fix c :: char and cs
  show "(dropWhile isSpace cs, c # cs) \<in> measure length"
    using length_dropWhile_le [of isSpace cs] by simp
qed simp_all

text \<open>\<open>trim()\<close>: the whitespace at both ends is dropped.\<close>

definition trim :: "string \<Rightarrow> string" where
  "trim text = rev (dropWhile isSpace (rev (dropWhile isSpace text)))"

text \<open>\<open>cleanForVoice\<close>: the replacements in the order of the source.\<close>

definition cleanForVoice :: "string \<Rightarrow> string" where
  "cleanForVoice text =
     trim (collapseWhitespace
       (replaceChar (CHR ''#'') '' number ''
         (replaceChar (CHR ''@'') '' at ''
           (replaceChar (CHR ''&'') '' and ''
             (removeAngles
               (removeLinks
                 (removeHeaders
                   (removeInlineCode
                     (removeCodeBlocks
                       (removeItalic
                         (removeBold text)))))))))))"




text \<open>
  Text with nothing left to clean: none of the characters that the normalizer strips or
  replaces, no whitespace at either end, and every whitespace character a single space
  between two other characters.
\<close>

fun singleSpaced :: "string \<Rightarrow> bool" where
  "singleSpaced [] = True"
| "singleSpaced [c] = (\<not> isSpace c)"
| "singleSpaced (a # b # cs) =
     ((if isSpace a then a = CHR '' '' \<and> \<not> isSpace b else True) \<and> singleSpaced (b # cs))"

definition cleanText :: "string \<Rightarrow> bool" where
  "cleanText text =
     (list_all (\<lambda>c. c \<notin> set ''*`#[<>&@'') text
      \<and> (case text of [] \<Rightarrow> True | c # cs \<Rightarrow> \<not> isSpace c)
      \<and> singleSpaced text)"

section \<open>The history cap\<close>

lemma slice_neg_lastN: "slice (- 20) xs = lastN 20 xs"
  by (simp add: slice_def lastN_def Let_def max_def nat_diff_distrib')

lemma length_lastN: "length (lastN n xs) \<le> n"
  by (simp add: lastN_def)

lemma lastN_short: "length xs \<le> n \<Longrightarrow> lastN n xs = xs"
  by (simp add: lastN_def)

lemma lastN_append_lastN:
  "ys \<noteq> [] \<Longrightarrow> lastN n (lastN n xs @ ys) = lastN n (xs @ ys)"
proof (cases "length xs \<le> n")
  case True
  then show ?thesis by (simp add: lastN_short)
next
  case False
  then have "length xs + length ys - n = (length xs - n) + length ys" by simp
  moreover from False have "n + length ys - n = length ys" by simp
  ultimately show ?thesis using False by (simp add: lastN_def add.commute)
qed

lemma addMessage_other: "cid' \<noteq> cid \<Longrightarrow> addMessage m cid' r c cid = m cid"
  by (simp add: addMessage_def Let_def split: option.splits)

lemma addMessage_same:
  "m cid = Some s \<Longrightarrow>
   addMessage m cid r c cid =
     Some (s\<lparr>conversationHistory := lastN 20 (conversationHistory s @ [\<lparr>role = r, content = c\<rparr>])\<rparr>)"
proof -
  assume h: "m cid = Some s"
  from h show ?thesis
    by (simp add: addMessage_def Let_def lastN_short slice_neg_lastN)
qed

lemma addMessage_absent: "m cid = None \<Longrightarrow> addMessage m cid' r c cid = None"
  by (cases "cid' = cid") (simp_all add: addMessage_def Let_def split: option.splits)

lemma addMessages_history:
  "m cid = Some s \<Longrightarrow>
   \<exists>s'. addMessages m calls cid = Some s' \<and>
        conversationHistory s' =
          (if entriesFor cid calls = [] then conversationHistory s
           else lastN 20 (conversationHistory s @ entriesFor cid calls))"
proof (induction calls arbitrary: m s)
  case Nil
  then show ?case by simp
next
  case (Cons call calls)
  obtain cid' r c where call: "call = (cid', r, c)" by (cases call)
  show ?case
  proof (cases "cid' = cid")
    case False
    with Cons.prems have "addMessage m cid' r c cid = Some s"
      by (simp add: addMessage_other)
    from Cons.IH [of "addMessage m cid' r c" s, OF this] obtain s' where
      "addMessages (addMessage m cid' r c) calls cid = Some s'" and
      "conversationHistory s' =
            (if entriesFor cid calls = [] then conversationHistory s
             else lastN 20 (conversationHistory s @ entriesFor cid calls))"
      by blast
    with False show ?thesis
      by (simp add: call)
  next
    case True
    let ?e = "\<lparr>role = r, content = c\<rparr>"
    let ?s1 = "s\<lparr>conversationHistory := lastN 20 (conversationHistory s @ [?e])\<rparr>"
    from True Cons.prems have "addMessage m cid' r c cid = Some ?s1"
      by (simp add: addMessage_same)
    from Cons.IH [of "addMessage m cid' r c" ?s1, OF this] obtain s' where
      s': "addMessages (addMessage m cid' r c) calls cid = Some s'" and
      h: "conversationHistory s' =
            (if entriesFor cid calls = [] then conversationHistory ?s1
             else lastN 20 (conversationHistory ?s1 @ entriesFor cid calls))"
      by blast
    from h True s' show ?thesis
      by (simp add: call lastN_append_lastN)
  qed
qed

lemma addMessages_cap:
  "\<forall>cid s. m cid = Some s \<longrightarrow> length (conversationHistory s) \<le> 20 \<Longrightarrow>
   addMessages m calls cid = Some s' \<Longrightarrow> length (conversationHistory s') \<le> 20"
proof (induction calls arbitrary: m)
  case Nil
  then show ?case by simp
next
  case (Cons call calls)
  obtain cid' r c where call: "call = (cid', r, c)" by (cases call)
  have "\<forall>k s. addMessage m cid' r c k = Some s \<longrightarrow> length (conversationHistory s) \<le> 20"
  proof (intro allI impI)
    fix k s assume a: "addMessage m cid' r c k = Some s"
    show "length (conversationHistory s) \<le> 20"
    proof (cases "cid' = k")
      case False
      with a Cons.prems(1) show ?thesis by (simp add: addMessage_other)
    next
      case True
      with a obtain s0 where "m k = Some s0"
        by (cases "m k") (auto simp: addMessage_absent)
      with a True show ?thesis
        by (auto simp: addMessage_same length_lastN)
    qed
  qed
  from Cons.IH [OF this] Cons.prems(2) show ?case by (simp add: call)
qed

text \<open>
  C1.  Appending to an existing session leaves at most 20 entries, whatever the
  history was before: the history after the append is the last 20 entries of the old
  history followed by the new entry, in order, so the oldest entries are the ones
  dropped.  For every sequence of \<open>addMessage\<close> calls (to any call identifiers) on a
  registry whose histories are within the cap, every history stays within the cap, and
  the history of a session is the last 20 of its old history followed by the entries
  appended to it.
\<close>

theorem addMessage_history_cap:
  "(m cid = Some s \<longrightarrow>
      (\<exists>s'. addMessage m cid r c cid = Some s' \<and>
            length (conversationHistory s') \<le> 20 \<and>
            conversationHistory s' =
              lastN 20 (conversationHistory s @ [\<lparr>role = r, content = c\<rparr>])))
   \<and> (m cid = Some s \<longrightarrow>
      (\<exists>s'. addMessages m calls cid = Some s' \<and>
            conversationHistory s' =
              (if entriesFor cid calls = [] then conversationHistory s
               else lastN 20 (conversationHistory s @ entriesFor cid calls))))
   \<and> ((\<forall>k t. m k = Some t \<longrightarrow> length (conversationHistory t) \<le> 20) \<longrightarrow>
      (\<forall>k t. addMessages m calls k = Some t \<longrightarrow> length (conversationHistory t) \<le> 20))"
proof (intro conjI impI allI)
  assume "m cid = Some s"
  then show "\<exists>s'. addMessage m cid r c cid = Some s' \<and>
            length (conversationHistory s') \<le> 20 \<and>
            conversationHistory s' =
              lastN 20 (conversationHistory s @ [\<lparr>role = r, content = c\<rparr>])"
    by (simp add: addMessage_same length_lastN)
next
  assume "m cid = Some s"
  then show "\<exists>s'. addMessages m calls cid = Some s' \<and>
            conversationHistory s' =
              (if entriesFor cid calls = [] then conversationHistory s
               else lastN 20 (conversationHistory s @ entriesFor cid calls))"
    by (rule addMessages_history)
next
  fix k t
  assume "\<forall>k t. m k = Some t \<longrightarrow> length (conversationHistory t) \<le> 20"
    and "addMessages m calls k = Some t"
  then show "length (conversationHistory t) \<le> 20"
    by (rule addMessages_cap)
qed

theorem addMessage_history_cap_witness:
  "(\<exists>s'. addMessage
          [''CA1'' \<mapsto> \<lparr>callSid = ''CA1'', from_number = ''+1'', to_number = ''+2'', startTime = 0,
             conversationHistory = \<lparr>role = ''assistant'', content = ''oldest''\<rparr> #
               replicate 19 \<lparr>role = ''user'', content = ''x''\<rparr>\<rparr>]
          ''CA1'' ''user'' ''newest'' ''CA1'' = Some s' \<and>
        length (conversationHistory s') \<le> 20 \<and>
        conversationHistory s' =
          replicate 19 \<lparr>role = ''user'', content = ''x''\<rparr> @ [\<lparr>role = ''user'', content = ''newest''\<rparr>])
   \<and> (\<exists>s'. addMessages
          [''CA1'' \<mapsto> \<lparr>callSid = ''CA1'', from_number = ''+1'', to_number = ''+2'', startTime = 0,
             conversationHistory = \<lparr>role = ''assistant'', content = ''oldest''\<rparr> #
               replicate 19 \<lparr>role = ''user'', content = ''x''\<rparr>\<rparr>]
          [(''CA1'', ''user'', ''a''), (''CA2'', ''user'', ''b''), (''CA1'', ''assistant'', ''c'')]
          ''CA1'' = Some s' \<and>
        length (conversationHistory s') \<le> 20 \<and>
        conversationHistory s' =
          replicate 18 \<lparr>role = ''user'', content = ''x''\<rparr> @
            [\<lparr>role = ''user'', content = ''a''\<rparr>, \<lparr>role = ''assistant'', content = ''c''\<rparr>])"
proof -
  let ?s = "\<lparr>callSid = ''CA1'', from_number = ''+1'', to_number = ''+2'', startTime = 0,
             conversationHistory = \<lparr>role = ''assistant'', content = ''oldest''\<rparr> #
               replicate 19 \<lparr>role = ''user'', content = ''x''\<rparr>\<rparr>"
  let ?m = "[''CA1'' \<mapsto> ?s]"
  let ?calls = "[(''CA1'', ''user'', ''a''), (''CA2'', ''user'', ''b''), (''CA1'', ''assistant'', ''c'')]"
  note cap = addMessage_history_cap [of ?m "''CA1''" ?s "''user''" "''newest''" ?calls]
  have present: "?m ''CA1'' = Some ?s" by simp
  have within: "\<forall>k t. ?m k = Some t \<longrightarrow> length (conversationHistory t) \<le> 20"
    by (auto split: if_splits)
  from cap present obtain s1 where
    s1: "addMessage ?m ''CA1'' ''user'' ''newest'' ''CA1'' = Some s1"
      "length (conversationHistory s1) \<le> 20"
      "conversationHistory s1 =
         lastN 20 (conversationHistory ?s @ [\<lparr>role = ''user'', content = ''newest''\<rparr>])"
    by blast
  from cap present obtain s2 where
    s2: "addMessages ?m ?calls ''CA1'' = Some s2"
      "conversationHistory s2 =
         (if entriesFor ''CA1'' ?calls = [] then conversationHistory ?s
          else lastN 20 (conversationHistory ?s @ entriesFor ''CA1'' ?calls))"
    by blast
  from cap within s2(1) have len2: "length (conversationHistory s2) \<le> 20"
    by blast
  have h1: "conversationHistory s1 =
      replicate 19 \<lparr>role = ''user'', content = ''x''\<rparr> @ [\<lparr>role = ''user'', content = ''newest''\<rparr>]"
    using s1(3) by (simp add: lastN_def)
  have h2: "conversationHistory s2 =
      replicate 18 \<lparr>role = ''user'', content = ''x''\<rparr> @
        [\<lparr>role = ''user'', content = ''a''\<rparr>, \<lparr>role = ''assistant'', content = ''c''\<rparr>]"
    using s2(2) by (simp add: lastN_def)
  from s1(1,2) h1 s2(1) len2 h2 show ?thesis by blast
qed

section \<open>Creating a session twice\<close>

text \<open>
  C5, as stated, fails: a second \<open>createSession\<close> with a call identifier that is
  already registered succeeds, and the session it stores has an empty history in place
  of the one that held a message.
\<close>

theorem createSession_twice_counterexample:
  "snd (createSession
          (addMessage (snd (createSession Map.empty 0 ''CA1'' ''+1'' ''+2'')) ''CA1'' ''user'' ''hi'')
          5 ''CA1'' ''+3'' ''+4'') ''CA1''
     = Some \<lparr>callSid = ''CA1'', from_number = ''+3'', to_number = ''+4'', startTime = 5,
             conversationHistory = []\<rparr>
   \<and> addMessage (snd (createSession Map.empty 0 ''CA1'' ''+1'' ''+2'')) ''CA1'' ''user'' ''hi'' ''CA1''
     = Some \<lparr>callSid = ''CA1'', from_number = ''+1'', to_number = ''+2'', startTime = 0,
             conversationHistory = [\<lparr>role = ''user'', content = ''hi''\<rparr>]\<rparr>"
  by (simp add: createSession_def addMessage_def Let_def)

text \<open>
  C5, amended.  \<open>createSession\<close> always succeeds: it returns a new session with the
  given fields and an empty history, and stores it under the call identifier, replacing
  whatever session was registered there.  The registry is a map, so it holds one session
  per call identifier: the identifiers registered afterwards are those registered before
  together with the new one, and the sessions of all other identifiers are as before.
\<close>

theorem createSession_replaces:
  "fst (createSession m now cid frm to) =
     \<lparr>callSid = cid, from_number = frm, to_number = to, startTime = now,
      conversationHistory = []\<rparr>
   \<and> getSession (snd (createSession m now cid frm to)) cid =
       Some (fst (createSession m now cid frm to))
   \<and> snd (createSession m now cid frm to) = m(cid \<mapsto> fst (createSession m now cid frm to))
   \<and> dom (snd (createSession m now cid frm to)) = insert cid (dom m)"
  by (simp add: createSession_def getSession_def Let_def)

section \<open>The request built for a prompt\<close>

lemma buildMessages_shape:
  "buildMessages cfg userPrompt history =
     \<lparr>role = ''system'', content = systemPrompt cfg\<rparr> #
     map (\<lambda>entry. \<lparr>role = role entry, content = content entry\<rparr>)
       (filter (\<lambda>entry. role entry \<noteq> ''system'') (lastN 10 history))
     @ [\<lparr>role = ''user'', content = userPrompt\<rparr>]"
  by (simp add: buildMessages_def slice_def lastN_def Let_def max_def nat_diff_distrib')

text \<open>
  C6 on the code.  \<open>handlePrompt\<close> appends the user turn to the history before it
  builds the request, and \<open>buildMessages\<close> appends the prompt once more: for a session
  with an empty history and the prompt \<open>hi\<close>, the request sent to the model holds the
  user turn twice.  The completion client here answers with the request it received,
  written out.
\<close>

theorem handlePrompt_request_repeats_user_turn:
  "fst (handlePrompt
          \<lparr>enableDtmf = True, enableInterruptions = True, systemPrompt = ''SYS''\<rparr>
          (\<lambda>request. ContentString (concat (map (\<lambda>e. role e @ '':'' @ content e @ '';'') request)))
          0 ''hi''
          (Some ''CA1'',
           \<lparr>sessionManager = [''CA1'' \<mapsto> \<lparr>callSid = ''CA1'', from_number = ''+1'',
               to_number = ''+2'', startTime = 0, conversationHistory = []\<rparr>],
            llamaService = \<lparr>controllers = [], activeStreams = Map.empty\<rparr>\<rparr>))
   = Some (TextMessage ''system:SYS;user:hi;user:hi;'' True True)"
  by (simp add: handlePrompt_def getSession_def addMessage_def generateResponse_def
      buildMessages_def slice_def Let_def)

section \<open>Events without a session\<close>




section \<open>DTMF digits\<close>



text \<open>
  C10.  The response to a DTMF event is \<open>handleDtmf\<close> of the configuration and the
  digit: two connections with any two handlers (registries, histories, streams), clocks
  and completion clients get the same response to the same digit, and the event leaves
  the connection and the handler as they were.
\<close>

theorem dtmf_response_depends_on_digit_only:
  "fst (handleMessage cfg api1 now1 (DtmfMessage digit) (ws1, h1)) =
     fst (handleMessage cfg api2 now2 (DtmfMessage digit) (ws2, h2))
   \<and> snd (handleMessage cfg api1 now1 (DtmfMessage digit) (ws1, h1)) = (ws1, h1)
   \<and> fst (handleMessage cfg api1 now1 (DtmfMessage digit) (ws1, h1)) = handleDtmf cfg digit"
  by simp

text \<open>
  C9, as stated, fails: with DTMF enabled and a session whose history holds an assistant
  entry, the response to the digit 9 is the fixed sentence about the digit, not the
  entry's text; with an empty history it is the same sentence, not the notice that there
  is nothing to repeat.
\<close>

theorem dtmf_nine_counterexample:
  "fst (handleMessage
          \<lparr>enableDtmf = True, enableInterruptions = True, systemPrompt = ''SYS''\<rparr>
          (\<lambda>request. NoContent) 0 (DtmfMessage ''9'')
          (Some ''CA1'',
           \<lparr>sessionManager = [''CA1'' \<mapsto> \<lparr>callSid = ''CA1'', from_number = ''+1'',
               to_number = ''+2'', startTime = 0,
               conversationHistory = [\<lparr>role = ''assistant'', content = ''Welcome!''\<rparr>]\<rparr>],
            llamaService = \<lparr>controllers = [], activeStreams = Map.empty\<rparr>\<rparr>))
     = Some (TextMessage ''You pressed 9. Please speak your request.'' True True)
   \<and> fst (handleMessage
          \<lparr>enableDtmf = True, enableInterruptions = True, systemPrompt = ''SYS''\<rparr>
          (\<lambda>request. NoContent) 0 (DtmfMessage ''9'')
          (Some ''CA1'',
           \<lparr>sessionManager = [''CA1'' \<mapsto> \<lparr>callSid = ''CA1'', from_number = ''+1'',
               to_number = ''+2'', startTime = 0, conversationHistory = []\<rparr>],
            llamaService = \<lparr>controllers = [], activeStreams = Map.empty\<rparr>\<rparr>))
     = Some (TextMessage ''You pressed 9. Please speak your request.'' True True)
   \<and> ''You pressed 9. Please speak your request.'' \<noteq> ''Welcome!''
   \<and> ''You pressed 9. Please speak your request.'' \<noteq> ''No previous message to repeat.''"
  by (simp add: handleDtmf_def)

text \<open>
  C9, amended.  With DTMF enabled, pressing 9 returns the text response
  \<open>You pressed 9. Please speak your request.\<close> (interruptible, last), whatever the
  session's history holds, and leaves connection and handler unchanged.
\<close>

theorem dtmf_nine_fixed_response:
  "enableDtmf cfg \<Longrightarrow>
   handleMessage cfg api now (DtmfMessage ''9'') (ws, h) =
     (Some (TextMessage ''You pressed 9. Please speak your request.'' True True), ws, h)"
  by (simp add: handleDtmf_def)

theorem dtmf_nine_fixed_response_witness:
  "enableDtmf \<lparr>enableDtmf = True, enableInterruptions = False, systemPrompt = ''SYS''\<rparr>
   \<and> handleMessage
        \<lparr>enableDtmf = True, enableInterruptions = False, systemPrompt = ''SYS''\<rparr>
        (\<lambda>request. NoContent) 7 (DtmfMessage ''9'')
        (Some ''CA1'',
         \<lparr>sessionManager = [''CA1'' \<mapsto> \<lparr>callSid = ''CA1'', from_number = ''+1'',
             to_number = ''+2'', startTime = 0,
             conversationHistory = [\<lparr>role = ''user'', content = ''hello''\<rparr>,
                                    \<lparr>role = ''assistant'', content = ''Welcome!''\<rparr>]\<rparr>],
          llamaService = \<lparr>controllers = [], activeStreams = Map.empty\<rparr>\<rparr>)
     = (Some (TextMessage ''You pressed 9. Please speak your request.'' True True),
        Some ''CA1'',
        \<lparr>sessionManager = [''CA1'' \<mapsto> \<lparr>callSid = ''CA1'', from_number = ''+1'',
             to_number = ''+2'', startTime = 0,
             conversationHistory = [\<lparr>role = ''user'', content = ''hello''\<rparr>,
                                    \<lparr>role = ''assistant'', content = ''Welcome!''\<rparr>]\<rparr>],
          llamaService = \<lparr>controllers = [], activeStreams = Map.empty\<rparr>\<rparr>)"
  using dtmf_nine_fixed_response [of
      "\<lparr>enableDtmf = True, enableInterruptions = False, systemPrompt = ''SYS''\<rparr>"
      "\<lambda>request. NoContent" 7 "Some ''CA1''"
      "\<lparr>sessionManager = [''CA1'' \<mapsto> \<lparr>callSid = ''CA1'', from_number = ''+1'',
             to_number = ''+2'', startTime = 0,
             conversationHistory = [\<lparr>role = ''user'', content = ''hello''\<rparr>,
                                    \<lparr>role = ''assistant'', content = ''Welcome!''\<rparr>]\<rparr>],
          llamaService = \<lparr>controllers = [], activeStreams = Map.empty\<rparr>\<rparr>"]
  by simp




section \<open>Cancellation handles\<close>




section \<open>What the normalizer keeps\<close>












lemma removeLinks_no_bracket: "CHR ''['' \<notin> set str \<Longrightarrow> removeLinks str = str"
  by (induction str) auto
















lemma removeBold_id: "CHR ''*'' \<notin> set str \<Longrightarrow> removeBold str = str"
  by (induction str rule: removeBold.induct) auto

lemma removeItalic_id: "CHR ''*'' \<notin> set str \<Longrightarrow> removeItalic str = str"
  by (induction str) (auto simp: removeItalic_def)

lemma removeCodeBlocks_id: "CHR ''`'' \<notin> set str \<Longrightarrow> removeCodeBlocks str = str"
  by (induction str) auto

lemma removeInlineCode_id: "CHR ''`'' \<notin> set str \<Longrightarrow> removeInlineCode str = str"
  by (induction str) auto

lemma removeHeaders_id: "CHR ''#'' \<notin> set str \<Longrightarrow> removeHeaders str = str"
  by (induction str) auto

lemma removeAngles_id:
  "CHR ''<'' \<notin> set str \<Longrightarrow> CHR ''>'' \<notin> set str \<Longrightarrow> removeAngles str = str"
  by (induction str) (auto simp: removeAngles_def)

lemma replaceChar_id: "symbol \<notin> set str \<Longrightarrow> replaceChar symbol word str = str"
  by (induction str) (auto simp: replaceChar_def)

lemma collapseWhitespace_id: "singleSpaced str \<Longrightarrow> collapseWhitespace str = str"
  by (induction str rule: singleSpaced.induct) (auto split: if_splits)

lemma singleSpaced_last: "singleSpaced str \<Longrightarrow> str \<noteq> [] \<Longrightarrow> \<not> isSpace (last str)"
  by (induction str rule: singleSpaced.induct) (auto split: if_splits)

lemma trim_id:
  assumes "singleSpaced str" and "case str of [] \<Rightarrow> True | c # cs \<Rightarrow> \<not> isSpace c"
  shows "trim str = str"
proof (cases str)
  case Nil
  then show ?thesis by (simp add: trim_def)
next
  case (Cons c cs)
  with assms(2) have front: "dropWhile isSpace str = str" by simp
  from assms(1) Cons have "\<not> isSpace (last str)"
    by (intro singleSpaced_last) simp_all
  moreover from Cons have "hd (rev str) = last str" by (simp only: hd_rev)
  ultimately have "\<not> isSpace (hd (rev str))" by simp
  with Cons have "dropWhile isSpace (rev str) = rev str"
    by (cases "rev str") simp_all
  with front show ?thesis by (simp add: trim_def)
qed

lemma cleanText_fixed: "cleanText str \<Longrightarrow> cleanForVoice str = str"
proof -
  assume c: "cleanText str"
  then have none: "CHR ''*'' \<notin> set str" "CHR ''`'' \<notin> set str" "CHR ''#'' \<notin> set str"
    "CHR ''['' \<notin> set str" "CHR ''<'' \<notin> set str" "CHR ''>'' \<notin> set str"
    "CHR ''&'' \<notin> set str" "CHR ''@'' \<notin> set str"
    by (auto simp: cleanText_def list_all_iff)
  from c have sp: "singleSpaced str" "case str of [] \<Rightarrow> True | c # cs \<Rightarrow> \<not> isSpace c"
    by (simp_all add: cleanText_def)
  show ?thesis
    by (simp add: cleanForVoice_def none sp removeBold_id removeItalic_id removeCodeBlocks_id
        removeInlineCode_id removeHeaders_id removeLinks_no_bracket removeAngles_id
        replaceChar_id collapseWhitespace_id trim_id)
qed

lemma cleanForVoice_hello: "cleanForVoice ''**Hello** #1'' = ''Hello number 1''"
  by (simp add: cleanForVoice_def removeItalic_def removeAngles_def replaceChar_def
      trim_def isSpace_def)

lemma cleanText_hello: "cleanText ''Hello number 1''"
  by (simp add: cleanText_def isSpace_def)

text \<open>
  C8.  The normalizer turns \<open>**Hello** #1\<close> into \<open>Hello number 1\<close>, and applying
  it to that result gives the same result again.  On every text that is already clean
  (none of the stripped or replaced symbols, single spaces only, none at the ends) the
  normalizer changes nothing, so applying it twice is the same as applying it once.
\<close>

theorem cleanForVoice_hello_idempotent:
  "cleanForVoice ''**Hello** #1'' = ''Hello number 1''
   \<and> cleanForVoice (cleanForVoice ''**Hello** #1'') = cleanForVoice ''**Hello** #1''
   \<and> (cleanText str \<longrightarrow>
        cleanForVoice str = str \<and> cleanForVoice (cleanForVoice str) = cleanForVoice str)"
  using cleanText_fixed [OF cleanText_hello] cleanText_fixed [of str]
  by (simp add: cleanForVoice_hello)

theorem cleanForVoice_hello_idempotent_witness:
  "cleanText ''Please hold, I will check that.''
   \<and> cleanForVoice ''Please hold, I will check that.'' = ''Please hold, I will check that.''
   \<and> cleanForVoice (cleanForVoice ''Please hold, I will check that.'') =
       cleanForVoice ''Please hold, I will check that.''"
proof -
  have "cleanText ''Please hold, I will check that.''"
    by (simp add: cleanText_def isSpace_def)
  with cleanForVoice_hello_idempotent [of "''Please hold, I will check that.''"]
  show ?thesis by simp
qed

end
